theory Spec2Isabelle
  imports Complex_Main
begin

section \<open>Entity model (src/schema.py)\<close>

text \<open>
  Calendar dates are day numbers and timestamps are seconds on the same axis; a date used
  where a timestamp is expected is the instant of its midnight, as the storage engine
  compares a \<open>Date\<close> column with a \<open>datetime\<close> value. Python floats are idealised as
  reals. The surrogate keys \<open>booking_id\<close> and \<open>interaction_id\<close> (uuid4 defaults filled in by
  the storage layer) are read by none of the functions below except as a data-frame
  column of the quality checks, where they are modelled.
\<close>

type_synonym date = int
type_synonym timestamp = int

definition midnight :: "date \<Rightarrow> timestamp" where
  "midnight d = d * 86400"

definition date_of :: "timestamp \<Rightarrow> date" where
  "date_of t = t div 86400"

text \<open>A \<open>Customer\<close> object before it is persisted has no \<open>customer_id\<close> yet.\<close>

record customer_fields =
  join_date :: date
  age :: int
  job_category :: string

record customer = customer_fields +
  customer_id :: int

record booking =
  bk_customer_id :: int
  check_in_date :: date
  check_out_date :: date
  amount_spent :: real
  room_type :: string
  booking_channel :: string
  num_adults :: int
  num_children :: int
  special_requests :: string
  status :: string

record support_log =
  log_customer_id :: int
  log_date :: timestamp
  log_text :: string

section \<open>Configuration (config/config.yaml, loaded at import time)\<close>

record segment =
  avg_nights_per_stay :: real

record config =
  customer_segments :: "string \<rightharpoonup> segment"
  cancellation_rate :: real
  num_customers :: nat
  new_customers_per_week :: nat
  bookings_per_week :: nat
  max_booking_amount :: real
  min_nights_stay :: int
  max_nights_stay :: int

section \<open>Exceptions\<close>

datatype error =
    KeyError
  | ValueError
  | IndexError
  | IntegrityError
  | OperationalError

section \<open>The random source\<close>

text \<open>
  Every call of the random source is a parameter: a raw natural number for the calls
  that reduce random bits into a range, and a real for the standard normal deviate
  behind \<open>random.gauss\<close>. The library functions are written out on these draws.
\<close>

text \<open>\<open>int(x)\<close> on a float truncates towards zero.\<close>

definition py_int :: "real \<Rightarrow> int" where
  "py_int x = (if 0 \<le> x then \<lfloor>x\<rfloor> else \<lceil>x\<rceil>)"

text \<open>\<open>random.random()\<close>: a 53-bit integer divided by \<open>2^53\<close>, so a value in \<open>[0, 1)\<close>.\<close>

definition random_unit :: "nat \<Rightarrow> real" where
  "random_unit k = real (k mod 2 ^ 53) / 2 ^ 53"

text \<open>\<open>random.uniform(a, b)\<close> is \<open>a + (b - a) * random()\<close>.\<close>

definition uniform :: "real \<Rightarrow> real \<Rightarrow> nat \<Rightarrow> real" where
  "uniform a b k = a + (b - a) * random_unit k"

text \<open>\<open>random.gauss(mu, sigma)\<close> is \<open>mu + z * sigma\<close> for a standard normal deviate \<open>z\<close>.\<close>

definition gauss :: "real \<Rightarrow> real \<Rightarrow> real \<Rightarrow> real" where
  "gauss mu sigma z = mu + z * sigma"

text \<open>\<open>random.randint(a, b)\<close>: an integer in \<open>[a, b]\<close>; an empty range raises.\<close>

definition randint :: "int \<Rightarrow> int \<Rightarrow> nat \<Rightarrow> error + int" where
  "randint a b k = (if b < a then Inl ValueError else Inr (a + int (k mod nat (b - a + 1))))"

text \<open>\<open>random.choice(seq)\<close>: \<open>seq[i]\<close> for an index below \<open>len(seq)\<close>; an empty sequence raises.\<close>

definition choice :: "'a list \<Rightarrow> nat \<Rightarrow> error + 'a" where
  "choice xs k = (if xs = [] then Inl IndexError else Inr (xs ! (k mod length xs)))"

text \<open>
  \<open>fake.date_between(start_date, end_date)\<close>: a date in \<open>[start_date, end_date]\<close>; the
  library draws an offset with \<open>randint\<close>-like range reduction and raises \<open>ValueError\<close> on
  the empty range \<open>end_date < start_date\<close>.
\<close>

definition date_between :: "date \<Rightarrow> date \<Rightarrow> nat \<Rightarrow> error + date" where
  "date_between start_date end_date k =
     (if end_date < start_date then Inl ValueError
      else Inr (start_date + int (k mod nat (end_date - start_date + 1))))"

text \<open>
  \<open>round(x, 2)\<close>: to the nearest hundredth, a tie going to the even neighbour.
\<close>

definition round_half_even :: "real \<Rightarrow> int" where
  "round_half_even y =
     (let f = \<lfloor>y\<rfloor>; r = y - of_int f
      in if r < 1 / 2 then f else if 1 / 2 < r then f + 1 else if even f then f else f + 1)"

definition round2 :: "real \<Rightarrow> real" where
  "round2 x = of_int (round_half_even (x * 100)) / 100"

section \<open>Generator (src/data_generator.py)\<close>

text \<open>The draws of one iteration of the booking loop, in the order the source makes them.\<close>

record booking_draws =
  check_in_draw :: nat
  stay_z :: real
  room_draw :: nat
  jitter_draw :: nat
  cancel_draw :: nat
  cancel_status_draw :: nat
  channel_draw :: nat
  adults_draw :: nat
  children_draw :: nat
  special_draw :: nat

text \<open>The draws of one call of \<open>generate_bookings_for_customer\<close>.\<close>

record call_draws =
  count_draw :: nat
  loop_draws :: "nat \<Rightarrow> booking_draws"

definition room_types :: "string list" where
  "room_types = [''Queen Bed'', ''King Bed'', ''Suite'']"

definition channels :: "string list" where
  "channels = [''Direct Website'', ''Agent'', ''OTA (Booking.com)'', ''Walk-in'']"

definition statuses :: "string list" where
  "statuses = [''Checked-Out'', ''Cancelled'', ''No-Show'']"

definition special_requests_options :: "string list" where
  "special_requests_options =
     [''None'', ''Pet Friendly'', ''Accessible Room'', ''Crib'', ''High Floor'']"

definition base_price :: "string \<rightharpoonup> real" where
  "base_price = [''Queen Bed'' \<mapsto> 120, ''King Bed'' \<mapsto> 150, ''Suite'' \<mapsto> 300]"

text \<open>Sequencing of calls that may raise.\<close>

definition ebind :: "error + 'a \<Rightarrow> ('a \<Rightarrow> error + 'b) \<Rightarrow> error + 'b" where
  "ebind m f = (case m of Inl e \<Rightarrow> Inl e | Inr x \<Rightarrow> f x)"

text \<open>Lines 63 to 74: the number of bookings of one call.\<close>

definition num_bookings :: "string \<Rightarrow> date \<Rightarrow> date \<Rightarrow> nat \<Rightarrow> int" where
  "num_bookings category start_date end_date k =
     (let days_in_range = end_date - start_date;
          years_in_range = real_of_int days_in_range / 365;
          n = (if category = ''business_traveler'' then py_int (years_in_range * 12)
               else if category = ''vacation_traveler'' then py_int (years_in_range * 4)
               else py_int (years_in_range * 1))
      in max 1 (py_int (real_of_int n * uniform (1 / 2) (3 / 2) k)))"

text \<open>Lines 83 to 114: the body of the loop, one booking.\<close>

definition nights_of :: "segment \<Rightarrow> booking_draws \<Rightarrow> int" where
  "nights_of seg d = max 1 (py_int (gauss (avg_nights_per_stay seg) 2 (stay_z d)))"

definition generate_booking ::
  "config \<Rightarrow> segment \<Rightarrow> int \<Rightarrow> date \<Rightarrow> date \<Rightarrow> booking_draws \<Rightarrow> error + booking" where
  "generate_booking cfg seg cid start_date end_date d =
     ebind (date_between start_date end_date (check_in_draw d)) (\<lambda>check_in.
     let nights = nights_of seg d;
         check_out = check_in + nights
     in
     ebind (choice room_types (room_draw d)) (\<lambda>room.
     ebind (case base_price room of None \<Rightarrow> Inl KeyError | Some p \<Rightarrow> Inr p) (\<lambda>price.
     let amount = price * real_of_int nights * uniform (4 / 5) (6 / 5) (jitter_draw d) in
     ebind (if random_unit (cancel_draw d) < cancellation_rate cfg
           then choice [''Cancelled'', ''No-Show''] (cancel_status_draw d)
           else Inr ''Checked-Out'') (\<lambda>st.
     ebind (choice channels (channel_draw d)) (\<lambda>chan.
     ebind (randint 1 4 (adults_draw d)) (\<lambda>adults.
     ebind (randint 0 3 (children_draw d)) (\<lambda>children.
     ebind (choice special_requests_options (special_draw d)) (\<lambda>special.
     Inr \<lparr> bk_customer_id = cid,
           check_in_date = check_in,
           check_out_date = check_out,
           amount_spent = round2 amount,
           room_type = room,
           booking_channel = chan,
           num_adults = adults,
           num_children = children,
           special_requests = special,
           status = st \<rparr>))))))))"

text \<open>Lines 82 and 114: the loop, stopped by the first exception.\<close>

fun booking_loop ::
  "config \<Rightarrow> segment \<Rightarrow> int \<Rightarrow> date \<Rightarrow> date \<Rightarrow> (nat \<Rightarrow> booking_draws) \<Rightarrow> nat \<Rightarrow> nat
     \<Rightarrow> error + booking list" where
  "booking_loop cfg seg cid start_date end_date ds i 0 = Inr []"
| "booking_loop cfg seg cid start_date end_date ds i (Suc n) =
     ebind (generate_booking cfg seg cid start_date end_date (ds i)) (\<lambda>b.
     ebind (booking_loop cfg seg cid start_date end_date ds (Suc i) n) (\<lambda>bs.
     Inr (b # bs)))"

definition generate_bookings_for_customer ::
  "config \<Rightarrow> customer \<Rightarrow> date \<Rightarrow> date \<Rightarrow> call_draws \<Rightarrow> error + booking list" where
  "generate_bookings_for_customer cfg c start_date end_date rs =
     (case customer_segments cfg (job_category c) of
        None \<Rightarrow> Inl KeyError
      | Some seg \<Rightarrow>
          booking_loop cfg seg (customer_id c) start_date end_date (loop_draws rs) 0
            (nat (num_bookings (job_category c) start_date end_date (count_draw rs))))"

text \<open>Lines 22 to 44: \<open>generate_customers\<close>; \<open>'-4y'\<close> is four years of 365.25 days, 1461 days before today.\<close>

record customer_draws =
  join_draw :: nat
  age_draw :: nat
  category_draw :: nat

definition job_categories :: "string list" where
  "job_categories = [''business_traveler'', ''vacation_traveler'', ''occasional_visitor'']"

definition generate_customer :: "date \<Rightarrow> customer_draws \<Rightarrow> error + customer_fields" where
  "generate_customer today d =
     ebind (date_between (today - 1461) today (join_draw d)) (\<lambda>jd.
     ebind (randint 21 75 (age_draw d)) (\<lambda>a.
     ebind (choice job_categories (category_draw d)) (\<lambda>cat.
     Inr \<lparr> join_date = jd, age = a, job_category = cat \<rparr>)))"

fun generate_customers ::
  "date \<Rightarrow> (nat \<Rightarrow> customer_draws) \<Rightarrow> nat \<Rightarrow> nat \<Rightarrow> error + customer_fields list" where
  "generate_customers today ds i 0 = Inr []"
| "generate_customers today ds i (Suc n) =
     ebind (generate_customer today (ds i)) (\<lambda>c.
     ebind (generate_customers today ds (Suc i) n) (\<lambda>cs.
     Inr (c # cs)))"

section \<open>Quality gate (src/quality_check.py)\<close>

text \<open>
  A data frame is its typed columns, so the dtype checks of the schema hold by typing.
  The optional columns are \<open>booking_id\<close> (line 61 asks whether it exists) and \<open>nights\<close>
  (line 66 assigns it). A validator returns its \<open>(is_valid, error_message)\<close> pair
  together with the frame as the call leaves it and the lines it printed.
\<close>

record bookings_df =
  df_rows :: "booking list"
  df_booking_id :: "nat list option"
  df_nights :: "int list option"

record customers_df =
  cdf_rows :: "customer_fields list"
  cdf_customer_id :: "int list option"

record logs_df =
  ldf_customer_id :: "int list option"
  ldf_date :: "timestamp list option"
  ldf_log_text :: "string option list option"

text \<open>
  The messages, in the order of the source's f-strings:
  \<open>Schema validation failed: {failure_cases}\<close>,
  \<open>Found {n} bookings where check_out <= check_in\<close>,
  \<open>Duplicate booking_ids found\<close>,
  \<open>Found {n} bookings with invalid night count (must be {min}-{max})\<close>,
  \<open>Duplicate customer_ids found\<close>,
  \<open>Missing required columns: {required_cols}\<close>,
  \<open>Found empty log_text entries\<close>,
  \<open>Found invalid customer_ids (must be > 0)\<close>.
\<close>

datatype reason =
    SchemaValidationFailed "(string \<times> nat) list"
  | CheckOutNotAfterCheckIn nat
  | DuplicateBookingIds
  | InvalidNightCount nat int int
  | DuplicateCustomerIds
  | MissingRequiredColumns "string list"
  | EmptyLogText
  | InvalidCustomerIds

text \<open>The line \<open>All {n} {kind} passed quality checks\<close> printed on success.\<close>

datatype printed = PassedQualityChecks nat string

type_synonym 'r check_schema = "(string \<times> ('r \<Rightarrow> bool)) list"

definition booking_schema :: "config \<Rightarrow> booking check_schema" where
  "booking_schema cfg =
     [(''customer_id'', \<lambda>r. 0 < bk_customer_id r),
      (''check_in_date'', \<lambda>r. True),
      (''check_out_date'', \<lambda>r. True),
      (''amount_spent'', \<lambda>r. 0 \<le> amount_spent r \<and> amount_spent r \<le> max_booking_amount cfg),
      (''room_type'', \<lambda>r. room_type r \<in> set [''Queen Bed'', ''King Bed'', ''Suite'']),
      (''booking_channel'', \<lambda>r. booking_channel r \<in>
          set [''Direct Website'', ''Agent'', ''OTA (Booking.com)'', ''Walk-in'']),
      (''num_adults'', \<lambda>r. 1 \<le> num_adults r \<and> num_adults r \<le> 10),
      (''num_children'', \<lambda>r. 0 \<le> num_children r \<and> num_children r \<le> 10),
      (''status'', \<lambda>r. status r \<in> set [''Checked-Out'', ''Cancelled'', ''No-Show''])]"

definition customer_schema :: "customer_fields check_schema" where
  "customer_schema =
     [(''join_date'', \<lambda>r. True),
      (''age'', \<lambda>r. 18 \<le> age r \<and> age r \<le> 100),
      (''job_category'', \<lambda>r. job_category r \<in>
          set [''business_traveler'', ''vacation_traveler'', ''occasional_visitor''])]"

text \<open>
  \<open>schema.validate(df, lazy=True)\<close> collects every failing cell, column by column, and
  raises \<open>SchemaErrors\<close> when there is one.
\<close>

definition failure_cases :: "'r check_schema \<Rightarrow> 'r list \<Rightarrow> (string \<times> nat) list" where
  "failure_cases schema rows =
     concat (map (\<lambda>(col, chk).
        map (\<lambda>i. (col, i)) (filter (\<lambda>i. \<not> chk (rows ! i)) [0..<length rows])) schema)"

definition stay_nights :: "booking \<Rightarrow> int" where
  "stay_nights b = check_out_date b - check_in_date b"

definition validate_bookings ::
  "config \<Rightarrow> bookings_df \<Rightarrow> (bool \<times> reason option) \<times> bookings_df \<times> printed list" where
  "validate_bookings cfg bookings_df =
     (let cases = failure_cases (booking_schema cfg) (df_rows bookings_df) in
      if cases \<noteq> [] then ((False, Some (SchemaValidationFailed cases)), bookings_df, [])
      else
      let invalid_dates =
            filter (\<lambda>r. check_out_date r \<le> check_in_date r) (df_rows bookings_df) in
      if invalid_dates \<noteq> []
      then ((False, Some (CheckOutNotAfterCheckIn (length invalid_dates))), bookings_df, [])
      else if (case df_booking_id bookings_df of
                 None \<Rightarrow> False
               | Some ids \<Rightarrow> \<not> distinct ids)
      then ((False, Some DuplicateBookingIds), bookings_df, [])
      else
      let nights = map stay_nights (df_rows bookings_df);
          bookings_df' = bookings_df \<lparr> df_nights := Some nights \<rparr>;
          min_nights = min_nights_stay cfg;
          max_nights = max_nights_stay cfg;
          invalid_nights = filter (\<lambda>n. n < min_nights \<or> max_nights < n) nights in
      if invalid_nights \<noteq> []
      then ((False, Some (InvalidNightCount (length invalid_nights) min_nights max_nights)),
            bookings_df', [])
      else ((True, None), bookings_df',
            [PassedQualityChecks (length (df_rows bookings_df)) ''bookings'']))"

definition validate_customers ::
  "customers_df \<Rightarrow> (bool \<times> reason option) \<times> customers_df \<times> printed list" where
  "validate_customers customers_df =
     (let cases = failure_cases customer_schema (cdf_rows customers_df) in
      if cases \<noteq> [] then ((False, Some (SchemaValidationFailed cases)), customers_df, [])
      else if (case cdf_customer_id customers_df of
                 None \<Rightarrow> False
               | Some ids \<Rightarrow> \<not> distinct ids)
      then ((False, Some DuplicateCustomerIds), customers_df, [])
      else ((True, None), customers_df,
            [PassedQualityChecks (length (cdf_rows customers_df)) ''customers'']))"

definition required_cols :: "string list" where
  "required_cols = [''customer_id'', ''date'', ''log_text'']"

definition validate_support_logs ::
  "logs_df \<Rightarrow> (bool \<times> reason option) \<times> logs_df \<times> printed list" where
  "validate_support_logs logs_df =
     (case (ldf_customer_id logs_df, ldf_date logs_df, ldf_log_text logs_df) of
        (Some ids, Some dates, Some texts) \<Rightarrow>
          if list_ex (\<lambda>t. t = None) texts \<or> list_ex (\<lambda>t. t = Some []) texts
          then ((False, Some EmptyLogText), logs_df, [])
          else if list_ex (\<lambda>i. i \<le> 0) ids
          then ((False, Some InvalidCustomerIds), logs_df, [])
          else ((True, None), logs_df, [PassedQualityChecks (length ids) ''support logs''])
      | _ \<Rightarrow> ((False, Some (MissingRequiredColumns required_cols)), logs_df, []))"

section \<open>Storage (src/database.py and the tables of src/schema.py)\<close>

text \<open>
  The three tables, and the sequence behind the autoincrement key of \<open>customers\<close>.
  \<open>support_logs.customer_id\<close> and \<open>bookings.customer_id\<close> are foreign keys into
  \<open>customers\<close> declared without \<open>ondelete\<close>: the engine refuses to delete a customer row
  that a remaining row refers to, and to insert a row that refers to no customer.
\<close>

record db =
  customers :: "customer list"
  bookings :: "booking list"
  support_logs :: "support_log list"
  customer_seq :: int

text \<open>
  The storage calls of the weekly pipeline, in source order. Any of them may fail for
  reasons outside the program (the connection drops); \<open>faults\<close> says which ones do in a
  given run, and such a call raises \<open>OperationalError\<close>.
\<close>

datatype storage_op =
    SelectOne
  | DeleteOldBookings
  | DeleteOldLogs
  | QueryBookingCustomers
  | DeleteCustomers
  | CommitCleanup
  | CountAfterCleanup
  | CommitCustomers
  | QueryCustomers
  | CommitBookings
  | CountVerify

type_synonym faults = "storage_op \<Rightarrow> bool"

definition test_connection :: "faults \<Rightarrow> bool" where
  "test_connection flt = (\<not> flt SelectOne)"

section \<open>Retention (src/ingest.py, cleanup_old_data)\<close>

definition cutoff_date :: "timestamp \<Rightarrow> timestamp" where
  "cutoff_date now = now - 5 * 365 * 86400"

definition old_booking :: "timestamp \<Rightarrow> booking \<Rightarrow> bool" where
  "old_booking cutoff b = (midnight (check_in_date b) < cutoff)"

definition old_log :: "timestamp \<Rightarrow> support_log \<Rightarrow> bool" where
  "old_log cutoff l = (log_date l < cutoff)"

text \<open>
  The result is what the call raises, or the three counts it prints, and the tables as
  the call leaves them: a failure before the commit is rolled back, the row counts
  after the commit can only fail with the deletions already committed.
\<close>

definition cleanup_old_data ::
  "faults \<Rightarrow> timestamp \<Rightarrow> db \<Rightarrow> (error + nat \<times> nat \<times> nat) \<times> db" where
  "cleanup_old_data flt now d =
     (let cutoff = cutoff_date now;
          old_bookings = length (filter (old_booking cutoff) (bookings d));
          bookings' = filter (\<lambda>b. \<not> old_booking cutoff b) (bookings d);
          old_logs = length (filter (old_log cutoff) (support_logs d));
          logs' = filter (\<lambda>l. \<not> old_log cutoff l) (support_logs d);
          customers_to_keep = remdups (map bk_customer_id bookings');
          doomed = filter (\<lambda>c. customer_id c \<notin> set customers_to_keep) (customers d);
          old_customers = length doomed;
          customers' = filter (\<lambda>c. \<not> customer_id c \<notin> set customers_to_keep) (customers d);
          d' = d \<lparr> customers := customers', bookings := bookings', support_logs := logs' \<rparr>
      in
      if flt DeleteOldBookings \<or> flt DeleteOldLogs \<or> flt QueryBookingCustomers
         \<or> flt DeleteCustomers
      then (Inl OperationalError, d)
      else if list_ex (\<lambda>l. list_ex (\<lambda>c. customer_id c = log_customer_id l) doomed) logs'
      then (Inl IntegrityError, d)
      else if flt CommitCleanup then (Inl OperationalError, d)
      else if flt CountAfterCleanup then (Inl OperationalError, d')
      else (Inr (old_bookings, old_logs, old_customers), d'))"

section \<open>Weekly generation (src/data_generator.py, generate_weekly_data)\<close>

text \<open>The draws of one weekly run: the new customers, then per booking slot the customer
  picked and the draws of the call made for that customer.\<close>

record weekly_draws =
  new_customer_draws :: "nat \<Rightarrow> customer_draws"
  slot_pick :: "nat \<Rightarrow> nat"
  slot_call :: "nat \<Rightarrow> call_draws"

text \<open>
  \<open>session.add_all(customers); session.commit()\<close>: the sequence numbers the new rows.
  The numbers drawn stay drawn when the transaction is rolled back.
\<close>

fun persist_customers :: "int \<Rightarrow> customer_fields list \<Rightarrow> customer list" where
  "persist_customers seq [] = []"
| "persist_customers seq (c # cs) =
     \<lparr> join_date = join_date c, age = age c, job_category = job_category c,
       customer_id = seq + 1 \<rparr> # persist_customers (seq + 1) cs"

text \<open>Lines 236 to 240: one slot of the loop appends the first booking of the call, if any.\<close>

fun weekly_slots ::
  "config \<Rightarrow> customer list \<Rightarrow> date \<Rightarrow> date \<Rightarrow> weekly_draws \<Rightarrow> nat \<Rightarrow> nat
     \<Rightarrow> error + booking list" where
  "weekly_slots cfg all_customers start_date end_date rs i 0 = Inr []"
| "weekly_slots cfg all_customers start_date end_date rs i (Suc n) =
     ebind (choice all_customers (slot_pick rs i)) (\<lambda>c.
     ebind (generate_bookings_for_customer cfg c start_date end_date (slot_call rs i)) (\<lambda>bs.
     ebind (weekly_slots cfg all_customers start_date end_date rs (Suc i) n) (\<lambda>rest.
     Inr ((case bs of [] \<Rightarrow> [] | b # _ \<Rightarrow> [b]) @ rest))))"

definition generate_weekly_data ::
  "config \<Rightarrow> faults \<Rightarrow> timestamp \<Rightarrow> weekly_draws \<Rightarrow> db \<Rightarrow> (error + unit) \<times> db" where
  "generate_weekly_data cfg flt now rs d =
     (case generate_customers (date_of now) (new_customer_draws rs) 0
             (new_customers_per_week cfg) of
        Inl e \<Rightarrow> (Inl e, d)
      | Inr fresh \<Rightarrow>
          if flt CommitCustomers
          then (Inl OperationalError,
                d \<lparr> customer_seq := customer_seq d + int (length fresh) \<rparr>)
          else
          let new_customers = persist_customers (customer_seq d) fresh;
              d1 = d \<lparr> customers := customers d @ new_customers,
                       customer_seq := customer_seq d + int (length fresh) \<rparr>
          in
          if flt QueryCustomers then (Inl OperationalError, d1)
          else
          let existing_customers = customers d1;
              all_customers = existing_customers @ new_customers;
              start_date = date_of (now - 7 * 86400);
              end_date = date_of now
          in
          (case weekly_slots cfg all_customers start_date end_date rs 0 (bookings_per_week cfg) of
             Inl e \<Rightarrow> (Inl e, d1)
           | Inr all_bookings \<Rightarrow>
               if list_ex (\<lambda>b. bk_customer_id b \<notin> set (map customer_id (customers d1)))
                    all_bookings
               then (Inl IntegrityError, d1)
               else if flt CommitBookings then (Inl OperationalError, d1)
               else (Inr (), d1 \<lparr> bookings := bookings d1 @ all_bookings \<rparr>)))"

section \<open>Weekly pipeline (src/ingest.py, run_weekly_pipeline)\<close>

text \<open>
  The result is the boolean returned, or the exception that leaves the function: only the
  row counts of step 4 are outside every \<open>except\<close>. The clock is read once by the
  cleanup and once by the generation.
\<close>

definition run_weekly_pipeline ::
  "config \<Rightarrow> faults \<Rightarrow> timestamp \<Rightarrow> timestamp \<Rightarrow> weekly_draws \<Rightarrow> db \<Rightarrow> (error + bool) \<times> db" where
  "run_weekly_pipeline cfg flt now_cleanup now_generate rs d =
     (if \<not> test_connection flt then (Inr False, d)
      else
      let d1 = snd (cleanup_old_data flt now_cleanup d) in
      (case generate_weekly_data cfg flt now_generate rs d1 of
         (Inl e, d2) \<Rightarrow> (Inr False, d2)
       | (Inr u, d2) \<Rightarrow>
           if flt CountVerify then (Inl OperationalError, d2) else (Inr True, d2)))"


section \<open>Example inputs\<close>

definition example_config :: config where
  "example_config =
     \<lparr> customer_segments =
         [''business_traveler'' \<mapsto> \<lparr> avg_nights_per_stay = 2 \<rparr>,
          ''vacation_traveler'' \<mapsto> \<lparr> avg_nights_per_stay = 5 \<rparr>,
          ''occasional_visitor'' \<mapsto> \<lparr> avg_nights_per_stay = 3 \<rparr>],
       cancellation_rate = 1 / 10,
       num_customers = 50,
       new_customers_per_week = 1,
       bookings_per_week = 2,
       max_booking_amount = 5000,
       min_nights_stay = 1,
       max_nights_stay = 14 \<rparr>"

definition example_customer :: customer where
  "example_customer =
     \<lparr> join_date = 0, age = 40, job_category = ''vacation_traveler'', customer_id = 1 \<rparr>"

text \<open>A six-sigma stay in a suite at the middle of the price jitter.\<close>

definition long_stay_draws :: booking_draws where
  "long_stay_draws =
     \<lparr> check_in_draw = 3, stay_z = 6, room_draw = 2, jitter_draw = 4503599627370496,
       cancel_draw = 4503599627370496, cancel_status_draw = 0, channel_draw = 2,
       adults_draw = 1, children_draw = 0, special_draw = 0 \<rparr>"

definition long_stay_call :: call_draws where
  "long_stay_call = \<lparr> count_draw = 0, loop_draws = (\<lambda>i. long_stay_draws) \<rparr>"

definition long_stay_booking :: booking where
  "long_stay_booking =
     \<lparr> bk_customer_id = 1, check_in_date = 3, check_out_date = 20, amount_spent = 5100,
       room_type = ''Suite'', booking_channel = ''OTA (Booking.com)'', num_adults = 2,
       num_children = 0, special_requests = ''None'', status = ''Checked-Out'' \<rparr>"

text \<open>A stay of the mean length in a queen room.\<close>

definition typical_draws :: booking_draws where
  "typical_draws =
     \<lparr> check_in_draw = 3, stay_z = 0, room_draw = 0, jitter_draw = 4503599627370496,
       cancel_draw = 4503599627370496, cancel_status_draw = 0, channel_draw = 0,
       adults_draw = 1, children_draw = 0, special_draw = 0 \<rparr>"

definition typical_call :: call_draws where
  "typical_call = \<lparr> count_draw = 0, loop_draws = (\<lambda>i. typical_draws) \<rparr>"

definition typical_booking :: booking where
  "typical_booking =
     \<lparr> bk_customer_id = 1, check_in_date = 3, check_out_date = 8, amount_spent = 600,
       room_type = ''Queen Bed'', booking_channel = ''Direct Website'', num_adults = 2,
       num_children = 0, special_requests = ''None'', status = ''Checked-Out'' \<rparr>"

subsection \<open>Example tables\<close>

text \<open>No storage call fails.\<close>
definition no_faults :: faults where
  "no_faults = (\<lambda>op. False)"

definition example_now :: timestamp where
  "example_now = 1762131600"

definition aged_db :: db where
  "aged_db =
     \<lparr> customers =
         [\<lparr> join_date = 17000, age = 40, job_category = ''vacation_traveler'',
            customer_id = 1 \<rparr>,
          \<lparr> join_date = 17500, age = 33, job_category = ''business_traveler'',
            customer_id = 2 \<rparr>,
          \<lparr> join_date = 20390, age = 58, job_category = ''occasional_visitor'',
            customer_id = 3 \<rparr>],
       bookings =
         [\<lparr> bk_customer_id = 1, check_in_date = 18000, check_out_date = 18005,
            amount_spent = 600, room_type = ''Queen Bed'',
            booking_channel = ''Direct Website'', num_adults = 2, num_children = 0,
            special_requests = ''None'', status = ''Checked-Out'' \<rparr>,
          \<lparr> bk_customer_id = 2, check_in_date = 18100, check_out_date = 18102,
            amount_spent = 300, room_type = ''King Bed'',
            booking_channel = ''Agent'', num_adults = 1, num_children = 0,
            special_requests = ''None'', status = ''Checked-Out'' \<rparr>,
          \<lparr> bk_customer_id = 2, check_in_date = 20000, check_out_date = 20002,
            amount_spent = 310, room_type = ''King Bed'',
            booking_channel = ''Agent'', num_adults = 1, num_children = 0,
            special_requests = ''None'', status = ''Checked-Out'' \<rparr>],
       support_logs =
         [\<lparr> log_customer_id = 1, log_date = 1555200000,
            log_text = ''Guest complained about slow Wi-Fi in room.'' \<rparr>,
          \<lparr> log_customer_id = 2, log_date = 1728000000,
            log_text = ''Guest praised the friendly staff and mountain view.'' \<rparr>],
       customer_seq = 3 \<rparr>"

definition aged_db_cleaned :: db where
  "aged_db_cleaned =
     \<lparr> customers =
         [\<lparr> join_date = 17500, age = 33, job_category = ''business_traveler'',
            customer_id = 2 \<rparr>],
       bookings =
         [\<lparr> bk_customer_id = 2, check_in_date = 20000, check_out_date = 20002,
            amount_spent = 310, room_type = ''King Bed'',
            booking_channel = ''Agent'', num_adults = 1, num_children = 0,
            special_requests = ''None'', status = ''Checked-Out'' \<rparr>],
       support_logs =
         [\<lparr> log_customer_id = 2, log_date = 1728000000,
            log_text = ''Guest praised the friendly staff and mountain view.'' \<rparr>],
       customer_seq = 3 \<rparr>"


text \<open>
  A customer who never booked; an instant whose cutoff is the midnight of day 18571, and a
  customer whose only booking checks in on that day.
\<close>

definition never_booked_db :: db where
  "never_booked_db =
     \<lparr> customers =
         [\<lparr> join_date = 20390, age = 58, job_category = ''occasional_visitor'',
            customer_id = 3 \<rparr>],
       bookings = [],
       support_logs = [],
       customer_seq = 3 \<rparr>"



subsection \<open>Example data frames\<close>

text \<open>A booking that checks out on the day it checks in (2024-01-10), and frames around it.\<close>
definition same_day_booking :: booking where
  "same_day_booking =
     \<lparr> bk_customer_id = 1, check_in_date = 19732, check_out_date = 19732, amount_spent = 150,
       room_type = ''King Bed'', booking_channel = ''Agent'', num_adults = 2,
       num_children = 0, special_requests = ''None'', status = ''Checked-Out'' \<rparr>"

definition same_day_df :: bookings_df where
  "same_day_df =
     \<lparr> df_rows = [typical_booking, same_day_booking], df_booking_id = Some [11, 12],
       df_nights = None \<rparr>"

definition valid_df :: bookings_df where
  "valid_df = \<lparr> df_rows = [typical_booking], df_booking_id = Some [11], df_nights = None \<rparr>"

text \<open>A valid frame that already carries a \<open>nights\<close> column.\<close>

definition stale_nights_df :: bookings_df where
  "stale_nights_df =
     \<lparr> df_rows = [typical_booking], df_booking_id = Some [11], df_nights = Some [99] \<rparr>"

definition ota_booking :: booking where
  "ota_booking = typical_booking \<lparr> booking_channel := ''OTA'' \<rparr>"


definition example_customers_df :: customers_df where
  "example_customers_df =
     \<lparr> cdf_rows = [\<lparr> join_date = 17000, age = 40, job_category = ''vacation_traveler'' \<rparr>],
       cdf_customer_id = Some [1] \<rparr>"

definition example_logs_df :: logs_df where
  "example_logs_df =
     \<lparr> ldf_customer_id = Some [1], ldf_date = Some [1728000000],
       ldf_log_text = Some [Some ''Guest praised the friendly staff and mountain view.''] \<rparr>"

subsection \<open>Example weekly run\<close>

text \<open>
  The draws of a weekly run; a table in which customer 1 has only an old booking and a
  recent support log; a run in which the commit of the new customers fails.
\<close>
definition example_weekly_draws :: weekly_draws where
  "example_weekly_draws =
     \<lparr> new_customer_draws = (\<lambda>i. \<lparr> join_draw = 100, age_draw = 9, category_draw = 1 \<rparr>),
       slot_pick = (\<lambda>i. i),
       slot_call = (\<lambda>i. typical_call) \<rparr>"

definition orphan_log_db :: db where
  "orphan_log_db =
     \<lparr> customers =
         [\<lparr> join_date = 17000, age = 40, job_category = ''vacation_traveler'',
            customer_id = 1 \<rparr>,
          \<lparr> join_date = 17500, age = 33, job_category = ''business_traveler'',
            customer_id = 2 \<rparr>],
       bookings =
         [\<lparr> bk_customer_id = 1, check_in_date = 18000, check_out_date = 18005,
            amount_spent = 600, room_type = ''Queen Bed'',
            booking_channel = ''Direct Website'', num_adults = 2, num_children = 0,
            special_requests = ''None'', status = ''Checked-Out'' \<rparr>,
          \<lparr> bk_customer_id = 2, check_in_date = 20000, check_out_date = 20002,
            amount_spent = 310, room_type = ''King Bed'',
            booking_channel = ''Agent'', num_adults = 1, num_children = 0,
            special_requests = ''None'', status = ''Checked-Out'' \<rparr>],
       support_logs =
         [\<lparr> log_customer_id = 1, log_date = 1728000000,
            log_text = ''Billing error resolved, guest appreciative of quick response.'' \<rparr>],
       customer_seq = 2 \<rparr>"

definition commit_customers_fails :: faults where
  "commit_customers_fails = (\<lambda>op. op = CommitCustomers)"

section \<open>Auxiliary facts\<close>

subsection \<open>The random source and the generator\<close>


lemma ebind_Inr_iff: "(ebind m f = Inr y) = (\<exists>x. m = Inr x \<and> f x = Inr y)"
  by (cases m) (simp_all add: ebind_def)

lemma ebind_Inr [simp]: "ebind (Inr x) f = f x"
  by (simp add: ebind_def)

lemma ebind_Inl [simp]: "ebind (Inl e) f = Inl e"
  by (simp add: ebind_def)

lemma choice_mem: "choice xs k = Inr x \<Longrightarrow> x \<in> set xs"
  by (auto simp: choice_def split: if_splits)

lemma choice_succeeds: "xs \<noteq> [] \<Longrightarrow> \<exists>x. choice xs k = Inr x \<and> x \<in> set xs"
  by (simp add: choice_def)

lemma random_unit_bounds: "0 \<le> random_unit k" "random_unit k < 1"
  unfolding random_unit_def by (simp_all add: divide_less_eq)

lemma uniform_bounds:
  assumes "a \<le> b"
  shows "a \<le> uniform a b k" and "uniform a b k \<le> b"
proof -
  have u: "0 \<le> random_unit k" "random_unit k \<le> 1"
    using random_unit_bounds[of k] by simp_all
  have "0 \<le> (b - a) * random_unit k"
    using assms u by simp
  then show "a \<le> uniform a b k" by (simp add: uniform_def)
  have "(b - a) * random_unit k \<le> (b - a) * 1"
    using assms u by (intro mult_left_mono) simp_all
  then show "uniform a b k \<le> b" by (simp add: uniform_def)
qed

lemma mod_range: "s \<le> e \<Longrightarrow> s + int (k mod nat (e - s + 1)) \<le> e"
proof -
  assume a: "s \<le> e"
  have "k mod nat (e - s + 1) < nat (e - s + 1)"
    using a by (intro mod_less_divisor) simp
  then show ?thesis using a by linarith
qed

lemma date_between_range: "date_between s e k = Inr d \<Longrightarrow> s \<le> d \<and> d \<le> e"
  using mod_range[of s e k] by (auto simp: date_between_def split: if_splits)

lemma date_between_succeeds: "s \<le> e \<Longrightarrow> \<exists>d. date_between s e k = Inr d"
  by (simp add: date_between_def)

lemma randint_succeeds: "a \<le> b \<Longrightarrow> \<exists>n. randint a b k = Inr n"
  by (simp add: randint_def)

lemma nights_of_ge1: "1 \<le> nights_of seg d"
  by (simp add: nights_of_def)



lemma base_price_room:
  "room \<in> set room_types \<Longrightarrow> \<exists>p. base_price room = Some p \<and> 120 \<le> p \<and> p \<le> 300"
  by (auto simp: room_types_def base_price_def)

lemma round_half_even_ge: "of_int m \<le> y \<Longrightarrow> m \<le> round_half_even y"
proof -
  assume "of_int m \<le> y"
  then have "m \<le> \<lfloor>y\<rfloor>" by (simp add: le_floor_iff)
  then show ?thesis by (simp add: round_half_even_def Let_def)
qed

lemma round_half_even_le: "y \<le> of_int m \<Longrightarrow> round_half_even y \<le> m"
proof (cases "y = of_int m")
  case True
  then show ?thesis by (simp add: round_half_even_def Let_def)
next
  case False
  assume "y \<le> of_int m"
  with False have "y < of_int m" by simp
  then have "\<lfloor>y\<rfloor> < m" by (simp add: floor_less_iff)
  then show ?thesis by (simp add: round_half_even_def Let_def)
qed

lemma round2_ge: "of_int m \<le> x \<Longrightarrow> of_int m \<le> round2 x"
proof -
  assume "of_int m \<le> x"
  then have "of_int (m * 100) \<le> x * 100" by simp
  then have "m * 100 \<le> round_half_even (x * 100)" by (rule round_half_even_ge)
  then have "real_of_int (m * 100) \<le> real_of_int (round_half_even (x * 100))"
    by (simp only: of_int_le_iff)
  then show ?thesis by (simp add: round2_def)
qed

lemma round2_le: "x \<le> of_int m \<Longrightarrow> round2 x \<le> of_int m"
proof -
  assume "x \<le> of_int m"
  then have "x * 100 \<le> of_int (m * 100)" by simp
  then have "round_half_even (x * 100) \<le> m * 100" by (rule round_half_even_le)
  then have "real_of_int (round_half_even (x * 100)) \<le> real_of_int (m * 100)"
    by (simp only: of_int_le_iff)
  then show ?thesis by (simp add: round2_def)
qed

lemma amount_bounds:
  assumes p: "120 \<le> p" "p \<le> 300" and n: "1 \<le> n"
  shows "of_int (96 * n) \<le> p * real_of_int n * uniform (4 / 5) (6 / 5) k"
    and "p * real_of_int n * uniform (4 / 5) (6 / 5) k \<le> of_int (360 * n)"
proof -
  let ?u = "uniform (4 / 5) (6 / 5) k"
  have u: "4 / 5 \<le> ?u" "?u \<le> 6 / 5"
    using uniform_bounds[of "4 / 5" "6 / 5" k] by simp_all
  have rn: "0 \<le> real_of_int n" using n by simp
  have lo: "120 * real_of_int n \<le> p * real_of_int n"
    using p rn by (intro mult_right_mono) simp_all
  have hi: "p * real_of_int n \<le> 300 * real_of_int n"
    using p rn by (intro mult_right_mono) simp_all
  have pn: "0 \<le> p * real_of_int n" using p rn by simp
  have "(120 * real_of_int n) * (4 / 5) \<le> (p * real_of_int n) * ?u"
    using lo u(1) pn by (rule mult_mono) simp
  then show "of_int (96 * n) \<le> p * real_of_int n * ?u" by simp
  have u0: "0 \<le> ?u" using u(1) by linarith
  have "(p * real_of_int n) * ?u \<le> (300 * real_of_int n) * (6 / 5)"
    using hi u(2) _ u0 by (rule mult_mono) (use rn in simp)
  then show "p * real_of_int n * ?u \<le> of_int (360 * n)" by simp
qed

text \<open>What one successful iteration of the loop built.\<close>

lemma generate_booking_Inr:
  assumes "generate_booking cfg seg cid s e d = Inr b"
  shows "check_out_date b = check_in_date b + nights_of seg d"
    and "s \<le> check_in_date b \<and> check_in_date b \<le> e"
    and "bk_customer_id b = cid"
    and "booking_channel b \<in> set channels"
    and "\<exists>p. 120 \<le> p \<and> p \<le> 300 \<and>
           amount_spent b =
             round2 (p * real_of_int (nights_of seg d) * uniform (4 / 5) (6 / 5) (jitter_draw d))"
proof -
  from assms obtain ci room p st chan ad ch sp where
    ci: "date_between s e (check_in_draw d) = Inr ci" and
    room: "choice room_types (room_draw d) = Inr room" and
    p: "(case base_price room of None \<Rightarrow> Inl KeyError | Some p \<Rightarrow> Inr p) = Inr p" and
    chan: "choice channels (channel_draw d) = Inr chan" and
    b: "b = \<lparr> bk_customer_id = cid, check_in_date = ci,
             check_out_date = ci + nights_of seg d,
             amount_spent = round2 (p * real_of_int (nights_of seg d)
                * uniform (4 / 5) (6 / 5) (jitter_draw d)),
             room_type = room, booking_channel = chan, num_adults = ad, num_children = ch,
             special_requests = sp, status = st \<rparr>"
    unfolding generate_booking_def by (auto simp: ebind_Inr_iff Let_def)
  show "check_out_date b = check_in_date b + nights_of seg d" by (simp add: b)
  show "s \<le> check_in_date b \<and> check_in_date b \<le> e"
    using date_between_range[OF ci] by (simp add: b)
  show "bk_customer_id b = cid" by (simp add: b)
  show "booking_channel b \<in> set channels" using choice_mem[OF chan] by (simp add: b)
  from base_price_room[OF choice_mem[OF room]] p have "120 \<le> p \<and> p \<le> 300" by auto
  then show "\<exists>p. 120 \<le> p \<and> p \<le> 300 \<and>
           amount_spent b =
             round2 (p * real_of_int (nights_of seg d) * uniform (4 / 5) (6 / 5) (jitter_draw d))"
    by (auto simp: b)
qed

lemma generate_booking_succeeds:
  assumes "s \<le> e"
  shows "\<exists>b. generate_booking cfg seg cid s e d = Inr b"
proof -
  obtain ci where ci: "date_between s e (check_in_draw d) = Inr ci"
    using date_between_succeeds[OF assms] by blast
  obtain room where room: "choice room_types (room_draw d) = Inr room" "room \<in> set room_types"
    using choice_succeeds[of room_types] by (auto simp: room_types_def)
  obtain p where p: "base_price room = Some p"
    using base_price_room[OF room(2)] by blast
  have "\<exists>st. (if random_unit (cancel_draw d) < cancellation_rate cfg
           then choice [''Cancelled'', ''No-Show''] (cancel_status_draw d)
           else Inr ''Checked-Out'') = Inr st"
    by (simp add: choice_def)
  then obtain st where st: "(if random_unit (cancel_draw d) < cancellation_rate cfg
           then choice [''Cancelled'', ''No-Show''] (cancel_status_draw d)
           else Inr ''Checked-Out'') = Inr st" ..
  obtain chan where chan: "choice channels (channel_draw d) = Inr chan"
    by (simp add: choice_def channels_def)
  obtain ad where ad: "randint 1 4 (adults_draw d) = Inr ad"
    by (simp add: randint_def)
  obtain ch where ch: "randint 0 3 (children_draw d) = Inr ch"
    by (simp add: randint_def)
  obtain sp where sp: "choice special_requests_options (special_draw d) = Inr sp"
    by (simp add: choice_def special_requests_options_def)
  show ?thesis
    unfolding generate_booking_def
    by (simp add: ci room p st chan ad ch sp Let_def)
qed

lemma generate_booking_empty_range:
  "e < s \<Longrightarrow> generate_booking cfg seg cid s e d = Inl ValueError"
  by (simp add: generate_booking_def date_between_def)

lemma booking_loop_Inr:
  "booking_loop cfg seg cid s e ds i n = Inr bs \<Longrightarrow>
     length bs = n \<and> (\<forall>j<n. generate_booking cfg seg cid s e (ds (i + j)) = Inr (bs ! j))"
proof (induction n arbitrary: i bs)
  case 0
  then show ?case by simp
next
  case (Suc n)
  from Suc.prems obtain b rest where
    b: "generate_booking cfg seg cid s e (ds i) = Inr b" and
    rest: "booking_loop cfg seg cid s e ds (Suc i) n = Inr rest" and
    bs: "bs = b # rest"
    by (auto simp: ebind_Inr_iff)
  from Suc.IH[OF rest] have len: "length rest = n" and
    nth: "\<forall>j<n. generate_booking cfg seg cid s e (ds (Suc i + j)) = Inr (rest ! j)"
    by simp_all
  have "generate_booking cfg seg cid s e (ds (i + j)) = Inr (bs ! j)" if "j < Suc n" for j
  proof (cases j)
    case 0
    then show ?thesis by (simp add: b bs)
  next
    case (Suc j')
    with that nth show ?thesis by (simp add: bs)
  qed
  then show ?case by (simp add: bs len)
qed

lemma booking_loop_succeeds:
  "s \<le> e \<Longrightarrow> \<exists>bs. booking_loop cfg seg cid s e ds i n = Inr bs"
proof (induction n arbitrary: i)
  case 0
  then show ?case by simp
next
  case (Suc n)
  obtain b where "generate_booking cfg seg cid s e (ds i) = Inr b"
    using generate_booking_succeeds[OF Suc.prems] by blast
  moreover obtain rest where "booking_loop cfg seg cid s e ds (Suc i) n = Inr rest"
    using Suc.IH[OF Suc.prems] by blast
  ultimately show ?case by simp
qed

lemma booking_loop_empty_range:
  "e < s \<Longrightarrow> booking_loop cfg seg cid s e ds i (Suc n) = Inl ValueError"
  by (simp add: generate_booking_empty_range)

lemma num_bookings_ge1: "1 \<le> num_bookings cat s e k"
  by (simp add: num_bookings_def Let_def)

lemma generate_bookings_Inr:
  assumes "generate_bookings_for_customer cfg c s e rs = Inr bs"
  shows "\<exists>seg. customer_segments cfg (job_category c) = Some seg \<and>
           int (length bs) = num_bookings (job_category c) s e (count_draw rs) \<and>
           (\<forall>j<length bs.
              generate_booking cfg seg (customer_id c) s e (loop_draws rs j) = Inr (bs ! j))"
proof -
  from assms obtain seg where
    seg: "customer_segments cfg (job_category c) = Some seg" and
    loop: "booking_loop cfg seg (customer_id c) s e (loop_draws rs) 0
             (nat (num_bookings (job_category c) s e (count_draw rs))) = Inr bs"
    by (auto simp: generate_bookings_for_customer_def split: option.splits)
  from booking_loop_Inr[OF loop] num_bookings_ge1[of "job_category c" s e "count_draw rs"]
  show ?thesis using seg by auto
qed

subsection \<open>The example calls, evaluated\<close>

lemma random_unit_half: "random_unit 4503599627370496 = 1 / 2"
  by (simp add: random_unit_def)

lemma random_unit_zero: "random_unit 0 = 0"
  by (simp add: random_unit_def)

lemma example_segment:
  "customer_segments example_config ''vacation_traveler'' = Some \<lparr> avg_nights_per_stay = 5 \<rparr>"
  by (simp add: example_config_def)

lemma num_bookings_week: "num_bookings ''vacation_traveler'' 0 7 0 = 1"
  by (simp add: num_bookings_def py_int_def uniform_def random_unit_zero)

lemma long_stay_generate_booking:
  "generate_booking example_config \<lparr> avg_nights_per_stay = 5 \<rparr> 1 0 7 long_stay_draws
     = Inr long_stay_booking"
  by (simp add: generate_booking_def long_stay_draws_def long_stay_booking_def
      date_between_def nights_of_def gauss_def py_int_def choice_def room_types_def
      base_price_def uniform_def random_unit_half example_config_def channels_def randint_def
      special_requests_options_def round2_def round_half_even_def)

lemma typical_generate_booking:
  "generate_booking example_config \<lparr> avg_nights_per_stay = 5 \<rparr> 1 0 7 typical_draws
     = Inr typical_booking"
  by (simp add: generate_booking_def typical_draws_def typical_booking_def
      date_between_def nights_of_def gauss_def py_int_def choice_def room_types_def
      base_price_def uniform_def random_unit_half example_config_def channels_def randint_def
      special_requests_options_def round2_def round_half_even_def)

lemma long_stay_generated:
  "generate_bookings_for_customer example_config example_customer 0 7 long_stay_call
     = Inr [long_stay_booking]"
  by (simp add: generate_bookings_for_customer_def example_customer_def example_segment
      num_bookings_week long_stay_call_def long_stay_generate_booking)

lemma typical_generated:
  "generate_bookings_for_customer example_config example_customer 0 7 typical_call
     = Inr [typical_booking]"
  by (simp add: generate_bookings_for_customer_def example_customer_def example_segment
      num_bookings_week typical_call_def typical_generate_booking)

subsection \<open>Retention\<close>

lemma aged_db_cleanup:
  "cleanup_old_data no_faults example_now aged_db = (Inr (2, 1, 2), aged_db_cleaned)"
  by (simp add: cleanup_old_data_def no_faults_def example_now_def aged_db_def
      aged_db_cleaned_def cutoff_date_def old_booking_def old_log_def midnight_def Let_def)

lemma cleanup_Inr:
  assumes "cleanup_old_data flt now d = (Inr cnt, d')"
  shows "bookings d' = filter (\<lambda>b. \<not> old_booking (cutoff_date now) b) (bookings d)"
    and "support_logs d' = filter (\<lambda>l. \<not> old_log (cutoff_date now) l) (support_logs d)"
    and "customers d' =
           filter (\<lambda>c. customer_id c \<in> bk_customer_id ` set (bookings d')) (customers d)"
    and "customer_seq d' = customer_seq d"
    and "cnt = (length (filter (old_booking (cutoff_date now)) (bookings d)),
                length (filter (old_log (cutoff_date now)) (support_logs d)),
                length (filter (\<lambda>c. customer_id c \<notin> bk_customer_id ` set (bookings d'))
                          (customers d)))"
  using assms unfolding cleanup_old_data_def Let_def
  by (auto split: if_splits)





subsection \<open>Quality gate\<close>

lemma failure_cases_mem:
  "((col, i) \<in> set (failure_cases schema rows)) =
     (i < length rows \<and> (\<exists>chk. (col, chk) \<in> set schema \<and> \<not> chk (rows ! i)))"
  unfolding failure_cases_def by auto

lemma failure_cases_Nil:
  "(failure_cases schema rows = []) = (\<forall>(col, chk)\<in>set schema. \<forall>r\<in>set rows. chk r)"
proof
  assume empty: "failure_cases schema rows = []"
  show "\<forall>(col, chk)\<in>set schema. \<forall>r\<in>set rows. chk r"
  proof (clarify)
    fix col chk r
    assume s: "(col, chk) \<in> set schema" and r: "r \<in> set rows"
    from r obtain i where i: "i < length rows" "rows ! i = r"
      by (auto simp: in_set_conv_nth)
    have "(col, i) \<notin> set (failure_cases schema rows)" by (simp add: empty)
    with s i show "chk r" by (auto simp: failure_cases_mem)
  qed
next
  assume ok: "\<forall>(col, chk)\<in>set schema. \<forall>r\<in>set rows. chk r"
  have "x \<notin> set (failure_cases schema rows)" for x
  proof
    assume x: "x \<in> set (failure_cases schema rows)"
    obtain col i where "x = (col, i)" by (cases x)
    with x obtain chk where c: "(col, chk) \<in> set schema" "i < length rows" "\<not> chk (rows ! i)"
      by (auto simp: failure_cases_mem)
    from c(2) have "rows ! i \<in> set rows" by simp
    with ok c(1) have "chk (rows ! i)" by blast
    with c(3) show False by simp
  qed
  then show "failure_cases schema rows = []"
    by (cases "failure_cases schema rows") auto
qed

lemma booking_schema_channel:
  "((''booking_channel'', chk) \<in> set (booking_schema cfg)) =
     (chk = (\<lambda>r. booking_channel r \<in>
          set [''Direct Website'', ''Agent'', ''OTA (Booking.com)'', ''Walk-in'']))"
  by (auto simp: booking_schema_def)

lemma typical_row_ok: "failure_cases (booking_schema example_config) [typical_booking] = []"
  by (simp add: failure_cases_Nil booking_schema_def typical_booking_def example_config_def)

lemma same_day_rows_ok:
  "failure_cases (booking_schema example_config) [typical_booking, same_day_booking] = []"
  by (simp add: failure_cases_Nil booking_schema_def typical_booking_def same_day_booking_def
      example_config_def)

lemma valid_df_validated:
  "validate_bookings example_config valid_df =
     ((True, None), valid_df \<lparr> df_nights := Some [5] \<rparr>, [PassedQualityChecks 1 ''bookings''])"
proof -
  have band: "min_nights_stay example_config = 1" "max_nights_stay example_config = 14"
    by (simp_all add: example_config_def)
  have n: "stay_nights typical_booking = 5" "\<not> check_out_date typical_booking \<le> check_in_date typical_booking"
    by (simp_all add: stay_nights_def typical_booking_def)
  show ?thesis
    by (simp add: validate_bookings_def valid_df_def typical_row_ok Let_def band n)
qed

lemma stale_nights_df_validated:
  "validate_bookings example_config stale_nights_df =
     ((True, None), stale_nights_df \<lparr> df_nights := Some [5] \<rparr>,
      [PassedQualityChecks 1 ''bookings''])"
proof -
  have band: "min_nights_stay example_config = 1" "max_nights_stay example_config = 14"
    by (simp_all add: example_config_def)
  have n: "stay_nights typical_booking = 5"
    "\<not> check_out_date typical_booking \<le> check_in_date typical_booking"
    by (simp_all add: stay_nights_def typical_booking_def)
  show ?thesis
    by (simp add: validate_bookings_def stale_nights_df_def typical_row_ok Let_def band n)
qed

subsection \<open>Weekly generation\<close>

lemma generate_customer_succeeds:
  "\<exists>c. generate_customer today d = Inr c \<and> job_category c \<in> set job_categories"
proof -
  have "today - 1461 \<le> today" by simp
  then obtain jd where jd: "date_between (today - 1461) today (join_draw d) = Inr jd"
    using date_between_succeeds by blast
  obtain a where a: "randint 21 75 (age_draw d) = Inr a"
    by (simp add: randint_def)
  obtain cat where cat: "choice job_categories (category_draw d) = Inr cat"
    "cat \<in> set job_categories"
    using choice_succeeds[of job_categories] by (auto simp: job_categories_def)
  show ?thesis unfolding generate_customer_def jd a cat(1) by (simp add: cat(2))
qed

lemma generate_customers_succeeds:
  "\<exists>cs. generate_customers today ds i n = Inr cs \<and> length cs = n \<and>
        (\<forall>c\<in>set cs. job_category c \<in> set job_categories)"
proof (induction n arbitrary: i)
  case 0
  show ?case by simp
next
  case (Suc n)
  obtain c where c: "generate_customer today (ds i) = Inr c"
    "job_category c \<in> set job_categories"
    using generate_customer_succeeds by blast
  obtain cs where cs: "generate_customers today ds (Suc i) n = Inr cs" "length cs = n"
    "\<forall>c\<in>set cs. job_category c \<in> set job_categories"
    using Suc.IH by blast
  show ?case by (simp add: c cs)
qed

lemma persist_customers_length: "length (persist_customers seq cs) = length cs"
  by (induction cs arbitrary: seq) simp_all

lemma persist_customers_category:
  "c \<in> set (persist_customers seq cs) \<Longrightarrow> job_category c \<in> job_category ` set cs"
  by (induction cs arbitrary: seq) auto

lemma generate_bookings_succeeds:
  assumes "customer_segments cfg (job_category c) = Some seg" and "s \<le> e"
  shows "\<exists>bs. generate_bookings_for_customer cfg c s e rs = Inr bs \<and> bs \<noteq> [] \<and>
           int (length bs) = num_bookings (job_category c) s e (count_draw rs)"
proof -
  obtain bs where bs: "booking_loop cfg seg (customer_id c) s e (loop_draws rs) 0
      (nat (num_bookings (job_category c) s e (count_draw rs))) = Inr bs"
    using booking_loop_succeeds[OF assms(2)] by blast
  then have g: "generate_bookings_for_customer cfg c s e rs = Inr bs"
    by (simp add: generate_bookings_for_customer_def assms(1))
  from generate_bookings_Inr[OF g]
  have len: "int (length bs) = num_bookings (job_category c) s e (count_draw rs)" by blast
  with num_bookings_ge1[of "job_category c" s e "count_draw rs"] have "bs \<noteq> []" by auto
  with g len show ?thesis by blast
qed

lemma generate_bookings_nonempty:
  assumes "generate_bookings_for_customer cfg c s e rs = Inr bs"
  shows "bs \<noteq> []" and "\<forall>b\<in>set bs. bk_customer_id b = customer_id c"
proof -
  from generate_bookings_Inr[OF assms] obtain seg where
    len: "int (length bs) = num_bookings (job_category c) s e (count_draw rs)" and
    nth: "\<forall>j<length bs.
            generate_booking cfg seg (customer_id c) s e (loop_draws rs j) = Inr (bs ! j)"
    by blast
  from len num_bookings_ge1[of "job_category c" s e "count_draw rs"] show "bs \<noteq> []" by auto
  show "\<forall>b\<in>set bs. bk_customer_id b = customer_id c"
  proof
    fix b assume "b \<in> set bs"
    then obtain j where "j < length bs" "b = bs ! j" by (auto simp: in_set_conv_nth)
    with nth have "generate_booking cfg seg (customer_id c) s e (loop_draws rs j) = Inr b"
      by simp
    then show "bk_customer_id b = customer_id c" by (rule generate_booking_Inr(3))
  qed
qed

lemma weekly_slots_Inr:
  "weekly_slots cfg cs s e rs i n = Inr bs \<Longrightarrow>
     length bs = n \<and> (\<forall>b\<in>set bs. bk_customer_id b \<in> customer_id ` set cs)"
proof (induction n arbitrary: i bs)
  case 0
  then show ?case by simp
next
  case (Suc n)
  from Suc.prems obtain c gen rest where
    c: "choice cs (slot_pick rs i) = Inr c" and
    gen: "generate_bookings_for_customer cfg c s e (slot_call rs i) = Inr gen" and
    rest: "weekly_slots cfg cs s e rs (Suc i) n = Inr rest" and
    bs: "bs = (case gen of [] \<Rightarrow> [] | b # _ \<Rightarrow> [b]) @ rest"
    by (auto simp: ebind_Inr_iff)
  from generate_bookings_nonempty[OF gen] obtain b tl where
    g: "gen = b # tl" and cid: "bk_customer_id b = customer_id c"
    by (cases gen) auto
  from choice_mem[OF c] cid have "bk_customer_id b \<in> customer_id ` set cs" by simp
  with Suc.IH[OF rest] show ?case by (simp add: bs g)
qed

lemma weekly_slots_succeeds:
  assumes "cs \<noteq> []" and "\<forall>c\<in>set cs. customer_segments cfg (job_category c) \<noteq> None"
    and "s \<le> e"
  shows "\<exists>bs. weekly_slots cfg cs s e rs i n = Inr bs"
proof (induction n arbitrary: i)
  case 0
  show ?case by simp
next
  case (Suc n)
  obtain c where c: "choice cs (slot_pick rs i) = Inr c" "c \<in> set cs"
    using choice_succeeds[OF assms(1)] by blast
  with assms(2) obtain seg where "customer_segments cfg (job_category c) = Some seg"
    by auto
  from generate_bookings_succeeds[OF this assms(3)] obtain gen where
    gen: "generate_bookings_for_customer cfg c s e (slot_call rs i) = Inr gen" by blast
  obtain rest where rest: "weekly_slots cfg cs s e rs (Suc i) n = Inr rest"
    using Suc.IH by blast
  show ?case by (simp add: c gen rest)
qed

lemma week_range: "date_of (now - 7 * 86400) \<le> date_of now"
  by (simp add: date_of_def zdiv_mono1)


lemma generate_weekly_data_succeeds:
  assumes flt: "\<not> flt CommitCustomers" "\<not> flt QueryCustomers" "\<not> flt CommitBookings"
    and cats: "\<forall>cat\<in>set job_categories. customer_segments cfg cat \<noteq> None"
    and old: "\<forall>c\<in>set (customers d). customer_segments cfg (job_category c) \<noteq> None"
    and some: "customers d \<noteq> [] \<or> 0 < new_customers_per_week cfg"
  shows "\<exists>d'. generate_weekly_data cfg flt now rs d = (Inr (), d')"
proof -
  obtain fresh where fresh:
    "generate_customers (date_of now) (new_customer_draws rs) 0 (new_customers_per_week cfg)
       = Inr fresh" "length fresh = new_customers_per_week cfg"
    "\<forall>c\<in>set fresh. job_category c \<in> set job_categories"
    using generate_customers_succeeds by blast
  let ?new = "persist_customers (customer_seq d) fresh"
  let ?d1 = "d \<lparr> customers := customers d @ ?new,
                  customer_seq := customer_seq d + int (length fresh) \<rparr>"
  let ?all = "customers ?d1 @ ?new"
  have new_cat: "customer_segments cfg (job_category c) \<noteq> None" if "c \<in> set ?new" for c
  proof -
    from persist_customers_category[OF that] fresh(3)
    have "job_category c \<in> set job_categories" by auto
    with cats show ?thesis by blast
  qed
  have all_cat: "\<forall>c\<in>set ?all. customer_segments cfg (job_category c) \<noteq> None"
    using old new_cat by auto
  have "length ?new = new_customers_per_week cfg"
    by (simp add: persist_customers_length fresh(2))
  with some have ne: "?all \<noteq> []" by auto
  obtain all_bookings where
    slots: "weekly_slots cfg ?all (date_of (now - 7 * 86400)) (date_of now)
              rs 0 (bookings_per_week cfg) = Inr all_bookings"
    using weekly_slots_succeeds[OF ne all_cat week_range] by blast
  from weekly_slots_Inr[OF slots]
  have fk: "\<forall>b\<in>set all_bookings. bk_customer_id b \<in> customer_id ` set (customers ?d1)"
    by auto
  have nofk: "\<not> list_ex (\<lambda>b. bk_customer_id b \<notin> set (map customer_id (customers ?d1)))
                      all_bookings"
    unfolding list_ex_iff set_map using fk by blast
  show ?thesis
    unfolding generate_weekly_data_def Let_def
    using flt nofk slots by (simp add: fresh(1))
qed

lemma generate_weekly_data_commit_fault:
  "flt CommitCustomers \<Longrightarrow>
     fst (generate_weekly_data cfg flt now rs d) = Inl OperationalError
     \<and> customers (snd (generate_weekly_data cfg flt now rs d)) = customers d
     \<and> bookings (snd (generate_weekly_data cfg flt now rs d)) = bookings d"
proof -
  assume f: "flt CommitCustomers"
  obtain fresh where
    "generate_customers (date_of now) (new_customer_draws rs) 0 (new_customers_per_week cfg)
       = Inr fresh"
    using generate_customers_succeeds by blast
  then show ?thesis by (simp add: generate_weekly_data_def f)
qed

lemma example_config_segments:
  "\<forall>cat\<in>set job_categories. customer_segments example_config cat \<noteq> None"
  by (simp add: job_categories_def example_config_def)

lemma orphan_log_cleanup:
  "cleanup_old_data no_faults example_now orphan_log_db = (Inl IntegrityError, orphan_log_db)"
  by (simp add: cleanup_old_data_def no_faults_def example_now_def orphan_log_db_def
      cutoff_date_def old_booking_def old_log_def midnight_def Let_def)

lemma orphan_log_cleanup_fault:
  "cleanup_old_data commit_customers_fails example_now orphan_log_db
     = (Inl IntegrityError, orphan_log_db)"
  by (simp add: cleanup_old_data_def commit_customers_fails_def example_now_def
      orphan_log_db_def cutoff_date_def old_booking_def old_log_def midnight_def Let_def)

lemma orphan_log_db_segments:
  "\<forall>c\<in>set (customers orphan_log_db). customer_segments example_config (job_category c) \<noteq> None"
  by (simp add: orphan_log_db_def example_config_def)


section \<open>The claims\<close>


subsection \<open>C1: stay length of generated bookings\<close>




subsection \<open>C7: amount of generated bookings\<close>

text \<open>
  C7, as the generator has it. Every booking returned by \<open>generate_bookings_for_customer\<close>
  has \<open>amount_spent \<ge> 0\<close>; more precisely the amount lies between 96 and 360 times the
  nights (the cheapest and dearest nightly rate with the price jitter). The generator
  does not read \<open>max_booking_amount\<close>: the amount is below it whenever 360 times the
  nights is.
\<close>

theorem generated_amount_bounds:
  assumes "generate_bookings_for_customer cfg c s e rs = Inr bs"
  shows "\<forall>b\<in>set bs.
           0 \<le> amount_spent b \<and>
           of_int (96 * stay_nights b) \<le> amount_spent b \<and>
           amount_spent b \<le> of_int (360 * stay_nights b) \<and>
           (of_int (360 * stay_nights b) \<le> max_booking_amount cfg
              \<longrightarrow> amount_spent b \<le> max_booking_amount cfg)"
proof
  fix b assume "b \<in> set bs"
  then obtain j where j: "j < length bs" and b: "b = bs ! j"
    by (auto simp: in_set_conv_nth)
  from generate_bookings_Inr[OF assms] j b obtain seg where
    g: "generate_booking cfg seg (customer_id c) s e (loop_draws rs j) = Inr b"
    by auto
  let ?n = "nights_of seg (loop_draws rs j)"
  have n: "stay_nights b = ?n"
    using generate_booking_Inr(1)[OF g] by (simp add: stay_nights_def)
  have ge: "1 \<le> ?n" by (rule nights_of_ge1)
  from generate_booking_Inr(5)[OF g] obtain p where
    p: "120 \<le> p" "p \<le> 300" and
    a: "amount_spent b =
          round2 (p * real_of_int ?n * uniform (4 / 5) (6 / 5) (jitter_draw (loop_draws rs j)))"
    by blast
  have lo: "of_int (96 * ?n) \<le> amount_spent b"
    unfolding a by (rule round2_ge) (rule amount_bounds(1)[OF p ge])
  have hi: "amount_spent b \<le> of_int (360 * ?n)"
    unfolding a by (rule round2_le) (rule amount_bounds(2)[OF p ge])
  have "(0::real) \<le> of_int (96 * ?n)" using ge by simp
  with lo have "0 \<le> amount_spent b" by linarith
  with lo hi n show "0 \<le> amount_spent b \<and>
           of_int (96 * stay_nights b) \<le> amount_spent b \<and>
           amount_spent b \<le> of_int (360 * stay_nights b) \<and>
           (of_int (360 * stay_nights b) \<le> max_booking_amount cfg
              \<longrightarrow> amount_spent b \<le> max_booking_amount cfg)"
    by simp
qed

text \<open>The theorem at a week-long range and a five-night stay in a queen room.\<close>

theorem generated_amount_bounds_witness:
  "generate_bookings_for_customer example_config example_customer 0 7 typical_call
     = Inr [typical_booking]
   \<and> 0 \<le> amount_spent typical_booking
   \<and> amount_spent typical_booking \<le> of_int (360 * stay_nights typical_booking)
   \<and> amount_spent typical_booking \<le> max_booking_amount example_config"
proof -
  have h: "generate_bookings_for_customer example_config example_customer 0 7 typical_call
     = Inr [typical_booking]" by (rule typical_generated)
  have "of_int (360 * stay_nights typical_booking) \<le> max_booking_amount example_config"
    by (simp add: stay_nights_def typical_booking_def example_config_def)
  with generated_amount_bounds[OF h] h show ?thesis by simp
qed

text \<open>Seventeen nights in a suite cost 5100, above a configured maximum of 5000.\<close>

theorem long_stay_exceeds_max_amount:
  "generate_bookings_for_customer example_config example_customer 0 7 long_stay_call
     = Inr [long_stay_booking]
   \<and> amount_spent long_stay_booking = 5100
   \<and> \<not> amount_spent long_stay_booking \<le> max_booking_amount example_config"
  using long_stay_generated
  by (simp add: long_stay_booking_def example_config_def)

subsection \<open>C2: what the cleanup removes\<close>

text \<open>
  C2, as the cleanup has it. When \<open>cleanup_old_data\<close> completes, it has removed every
  booking whose check-in is before \<open>now\<close> minus 5 times 365 days and no other booking,
  every support log whose timestamp is before that cutoff and no other log, and exactly
  the customers to whom no booking of the remaining set refers, whether or not a booking
  of theirs was deleted; the three counts it reports are the numbers of rows removed.
\<close>

theorem cleanup_removes:
  assumes "cleanup_old_data flt now d = (Inr cnt, d')"
  shows "set (bookings d') =
           {b \<in> set (bookings d). \<not> midnight (check_in_date b) < now - 5 * 365 * 86400}
         \<and> set (support_logs d') =
           {l \<in> set (support_logs d). \<not> log_date l < now - 5 * 365 * 86400}
         \<and> set (customers d') =
           {c \<in> set (customers d). \<exists>b\<in>set (bookings d'). bk_customer_id b = customer_id c}
         \<and> cnt = (length (bookings d) - length (bookings d'),
                  length (support_logs d) - length (support_logs d'),
                  length (customers d) - length (customers d'))"
proof -
  note r = cleanup_Inr[OF assms]
  have len: "length (filter P xs) = length xs - length (filter (\<lambda>x. \<not> P x) xs)"
    for P :: "'a \<Rightarrow> bool" and xs
    using sum_length_filter_compl[of P xs] by simp
  have b: "set (bookings d') =
           {b \<in> set (bookings d). \<not> midnight (check_in_date b) < now - 5 * 365 * 86400}"
    by (auto simp: r(1) old_booking_def cutoff_date_def)
  have l: "set (support_logs d') =
           {l \<in> set (support_logs d). \<not> log_date l < now - 5 * 365 * 86400}"
    by (auto simp: r(2) old_log_def cutoff_date_def)
  have c: "set (customers d') =
           {c \<in> set (customers d). \<exists>b\<in>set (bookings d'). bk_customer_id b = customer_id c}"
    unfolding r(3) by (force simp: image_iff)
  have n1: "length (filter (old_booking (cutoff_date now)) (bookings d))
              = length (bookings d) - length (bookings d')"
    unfolding r(1) by (rule len)
  have n2: "length (filter (old_log (cutoff_date now)) (support_logs d))
              = length (support_logs d) - length (support_logs d')"
    unfolding r(2) by (rule len)
  have n3: "length (filter (\<lambda>c. customer_id c \<notin> bk_customer_id ` set (bookings d'))
                          (customers d))
              = length (customers d) - length (customers d')"
    using len[of "\<lambda>c. customer_id c \<notin> bk_customer_id ` set (bookings d')" "customers d"]
    by (simp add: r(3))
  from b l c r(5) n1 n2 n3 show ?thesis by simp
qed

text \<open>The theorem on a table with two old bookings, one old log and a customer without bookings.\<close>

theorem cleanup_removes_witness:
  "cleanup_old_data no_faults example_now aged_db = (Inr (2, 1, 2), aged_db_cleaned)
   \<and> set (customers aged_db_cleaned) =
       {c \<in> set (customers aged_db).
          \<exists>b\<in>set (bookings aged_db_cleaned). bk_customer_id b = customer_id c}
   \<and> length (bookings aged_db) - length (bookings aged_db_cleaned) = 2"
  using cleanup_removes[OF aged_db_cleanup] aged_db_cleanup by simp

text \<open>
  A customer who never had a booking is removed although no booking was deleted: the set
  of bookings of that customer did not become empty by the deletion, it was empty before.
\<close>

theorem cleanup_removes_never_booked:
  "bookings never_booked_db = []
   \<and> cleanup_old_data no_faults example_now never_booked_db
       = (Inr (0, 0, 1), never_booked_db \<lparr> customers := [] \<rparr>)"
  by (simp add: cleanup_old_data_def no_faults_def example_now_def never_booked_db_def
      cutoff_date_def old_booking_def old_log_def midnight_def Let_def)

subsection \<open>C4: no customer without bookings after the cleanup\<close>

text \<open>
  C4. After a completed run of \<open>cleanup_old_data\<close>, every remaining customer has at least
  one remaining booking whose \<open>customer_id\<close> refers to it.
\<close>

theorem no_orphan_after_cleanup:
  assumes "cleanup_old_data flt now d = (Inr cnt, d')"
  shows "\<forall>c\<in>set (customers d'). \<exists>b\<in>set (bookings d'). bk_customer_id b = customer_id c"
  unfolding cleanup_Inr(3)[OF assms] by (force simp: image_iff)

text \<open>The theorem on the example table.\<close>

theorem no_orphan_after_cleanup_witness:
  "cleanup_old_data no_faults example_now aged_db = (Inr (2, 1, 2), aged_db_cleaned)
   \<and> list_all (\<lambda>c. list_ex (\<lambda>b. bk_customer_id b = customer_id c) (bookings aged_db_cleaned))
        (customers aged_db_cleaned)"
  using no_orphan_after_cleanup[OF aged_db_cleanup] aged_db_cleanup
  by (simp add: list_all_iff list_ex_iff)

subsection \<open>C5: a second cleanup\<close>




subsection \<open>C3: what the validators leave behind\<close>

text \<open>
  C3, as the validators have it. \<open>validate_customers\<close> and \<open>validate_support_logs\<close> leave
  the frame they are given as it was. \<open>validate_bookings\<close> leaves every column other than
  \<open>nights\<close> as it was (the rows and the \<open>booking_id\<close> column); once the schema, date-order
  and duplicate-id checks have passed it assigns the \<open>nights\<close> column of the caller's
  frame (line 66), adding the column or overwriting the one that was there, whether the
  night-count check then passes or fails; when one of the three checks fails the frame
  is left as it was. Besides the returned pair each validator prints one line, on
  success only.
\<close>

theorem validators_frame_effect:
  "fst (snd (validate_customers customers_df)) = customers_df
   \<and> snd (snd (validate_customers customers_df)) =
       (if fst (fst (validate_customers customers_df))
        then [PassedQualityChecks (length (cdf_rows customers_df)) ''customers''] else [])
   \<and> fst (snd (validate_support_logs logs_df)) = logs_df
   \<and> length (snd (snd (validate_support_logs logs_df))) =
       (if fst (fst (validate_support_logs logs_df)) then 1 else 0)
   \<and> fst (snd (validate_bookings cfg bookings_df)) =
       (if failure_cases (booking_schema cfg) (df_rows bookings_df) = []
           \<and> filter (\<lambda>r. check_out_date r \<le> check_in_date r) (df_rows bookings_df) = []
           \<and> (case df_booking_id bookings_df of None \<Rightarrow> True | Some ids \<Rightarrow> distinct ids)
        then bookings_df \<lparr> df_nights := Some (map stay_nights (df_rows bookings_df)) \<rparr>
        else bookings_df)
   \<and> df_rows (fst (snd (validate_bookings cfg bookings_df))) = df_rows bookings_df
   \<and> df_booking_id (fst (snd (validate_bookings cfg bookings_df))) = df_booking_id bookings_df
   \<and> df_nights (fst (snd (validate_bookings cfg bookings_df))) =
       (if failure_cases (booking_schema cfg) (df_rows bookings_df) = []
           \<and> filter (\<lambda>r. check_out_date r \<le> check_in_date r) (df_rows bookings_df) = []
           \<and> (case df_booking_id bookings_df of None \<Rightarrow> True | Some ids \<Rightarrow> distinct ids)
        then Some (map stay_nights (df_rows bookings_df))
        else df_nights bookings_df)
   \<and> snd (snd (validate_bookings cfg bookings_df)) =
       (if fst (fst (validate_bookings cfg bookings_df))
        then [PassedQualityChecks (length (df_rows bookings_df)) ''bookings''] else [])"
proof -
  have c: "fst (snd (validate_customers customers_df)) = customers_df
   \<and> snd (snd (validate_customers customers_df)) =
       (if fst (fst (validate_customers customers_df))
        then [PassedQualityChecks (length (cdf_rows customers_df)) ''customers''] else [])"
    by (simp add: validate_customers_def Let_def)
  have l: "fst (snd (validate_support_logs logs_df)) = logs_df
   \<and> length (snd (snd (validate_support_logs logs_df))) =
       (if fst (fst (validate_support_logs logs_df)) then 1 else 0)"
    by (simp add: validate_support_logs_def split: option.splits)
  have b1: "fst (snd (validate_bookings cfg bookings_df)) =
       (if failure_cases (booking_schema cfg) (df_rows bookings_df) = []
           \<and> filter (\<lambda>r. check_out_date r \<le> check_in_date r) (df_rows bookings_df) = []
           \<and> (case df_booking_id bookings_df of None \<Rightarrow> True | Some ids \<Rightarrow> distinct ids)
        then bookings_df \<lparr> df_nights := Some (map stay_nights (df_rows bookings_df)) \<rparr>
        else bookings_df)"
    by (simp add: validate_bookings_def Let_def split: option.splits)
  have b2: "df_rows (fst (snd (validate_bookings cfg bookings_df))) = df_rows bookings_df"
    "df_booking_id (fst (snd (validate_bookings cfg bookings_df))) = df_booking_id bookings_df"
    unfolding b1 by simp_all
  have b4: "df_nights (fst (snd (validate_bookings cfg bookings_df))) =
       (if failure_cases (booking_schema cfg) (df_rows bookings_df) = []
           \<and> filter (\<lambda>r. check_out_date r \<le> check_in_date r) (df_rows bookings_df) = []
           \<and> (case df_booking_id bookings_df of None \<Rightarrow> True | Some ids \<Rightarrow> distinct ids)
        then Some (map stay_nights (df_rows bookings_df))
        else df_nights bookings_df)"
    unfolding b1 by simp
  have b3: "snd (snd (validate_bookings cfg bookings_df)) =
       (if fst (fst (validate_bookings cfg bookings_df))
        then [PassedQualityChecks (length (df_rows bookings_df)) ''bookings''] else [])"
    by (simp add: validate_bookings_def Let_def)
  from c l b1 b2 b3 b4 show ?thesis by blast
qed

text \<open>
  The theorem on example frames: a bookings frame that fails the date-order check is left
  as it was, and a valid one that carried a \<open>nights\<close> column has it overwritten.
\<close>

theorem validators_frame_effect_witness:
  "fst (snd (validate_customers example_customers_df)) = example_customers_df
   \<and> fst (snd (validate_support_logs example_logs_df)) = example_logs_df
   \<and> fst (snd (validate_bookings example_config same_day_df)) = same_day_df
   \<and> df_nights stale_nights_df = Some [99]
   \<and> df_nights (fst (snd (validate_bookings example_config stale_nights_df))) = Some [5]
   \<and> df_rows (fst (snd (validate_bookings example_config stale_nights_df)))
       = df_rows stale_nights_df"
proof -
  have a: "fst (snd (validate_customers example_customers_df)) = example_customers_df
   \<and> fst (snd (validate_support_logs example_logs_df)) = example_logs_df
   \<and> fst (snd (validate_bookings example_config same_day_df)) = same_day_df"
    using validators_frame_effect[of example_customers_df example_logs_df example_config
        same_day_df]
    by (simp add: same_day_df_def same_day_rows_ok same_day_booking_def typical_booking_def)
  have b: "df_nights stale_nights_df = Some [99]"
    by (simp add: stale_nights_df_def)
  have ok: "failure_cases (booking_schema example_config) (df_rows stale_nights_df) = []"
    by (simp add: stale_nights_df_def typical_row_ok)
  have n: "map stay_nights (df_rows stale_nights_df) = [5]"
    "filter (\<lambda>r. check_out_date r \<le> check_in_date r) (df_rows stale_nights_df) = []"
    "df_booking_id stale_nights_df = Some [11]"
    by (simp_all add: stale_nights_df_def stay_nights_def typical_booking_def)
  from validators_frame_effect[of example_customers_df example_logs_df example_config
        stale_nights_df]
  have c: "df_nights (fst (snd (validate_bookings example_config stale_nights_df))) = Some [5]
     \<and> df_rows (fst (snd (validate_bookings example_config stale_nights_df)))
         = df_rows stale_nights_df"
    by (simp add: ok n)
  from a b c show ?thesis by blast
qed

text \<open>A valid frame comes back with a \<open>nights\<close> column it did not have, and a line is printed.\<close>

theorem validate_bookings_adds_nights_column:
  "fst (validate_bookings example_config valid_df) = (True, None)
   \<and> df_nights valid_df = None
   \<and> df_nights (fst (snd (validate_bookings example_config valid_df))) = Some [5]
   \<and> fst (snd (validate_bookings example_config valid_df)) \<noteq> valid_df
   \<and> snd (snd (validate_bookings example_config valid_df)) = [PassedQualityChecks 1 ''bookings'']"
  by (simp add: valid_df_validated) (simp add: valid_df_def)

subsection \<open>C8: order of the booking checks\<close>

text \<open>
  C8. \<open>validate_bookings\<close> runs the schema check, then the date-order check, then the
  duplicate-id check, then the night-count check, and returns at the first that fails.
  On a frame whose rows all pass the schema and that holds a booking with
  \<open>check_out_date = check_in_date\<close>, it returns \<open>is_valid = False\<close> with the message
  \<open>Found {n} bookings where check_out <= check_in\<close>, \<open>n\<close> at least 1 being the number of
  rows with \<open>check_out_date <= check_in_date\<close>.
\<close>

theorem validate_bookings_check_order:
  "(failure_cases (booking_schema cfg) (df_rows df) \<noteq> [] \<longrightarrow>
      fst (validate_bookings cfg df) =
        (False, Some (SchemaValidationFailed (failure_cases (booking_schema cfg) (df_rows df)))))
   \<and> (failure_cases (booking_schema cfg) (df_rows df) = [] \<longrightarrow>
      (r \<in> set (df_rows df) \<and> check_out_date r = check_in_date r \<longrightarrow>
         1 \<le> length (filter (\<lambda>r. check_out_date r \<le> check_in_date r) (df_rows df))) \<and>
      (filter (\<lambda>r. check_out_date r \<le> check_in_date r) (df_rows df) \<noteq> [] \<longrightarrow>
         fst (validate_bookings cfg df) =
           (False, Some (CheckOutNotAfterCheckIn
              (length (filter (\<lambda>r. check_out_date r \<le> check_in_date r) (df_rows df)))))) \<and>
      (filter (\<lambda>r. check_out_date r \<le> check_in_date r) (df_rows df) = [] \<longrightarrow>
         ((\<exists>ids. df_booking_id df = Some ids \<and> \<not> distinct ids) \<longrightarrow>
            fst (validate_bookings cfg df) = (False, Some DuplicateBookingIds)) \<and>
         (\<not> (\<exists>ids. df_booking_id df = Some ids \<and> \<not> distinct ids) \<longrightarrow>
            fst (validate_bookings cfg df) =
              (let bad = filter (\<lambda>n. n < min_nights_stay cfg \<or> max_nights_stay cfg < n)
                           (map stay_nights (df_rows df))
               in if bad \<noteq> []
                  then (False, Some (InvalidNightCount (length bad)
                          (min_nights_stay cfg) (max_nights_stay cfg)))
                  else (True, None)))))"
proof -
  have pos: "1 \<le> length (filter (\<lambda>r. check_out_date r \<le> check_in_date r) (df_rows df))"
    if "r \<in> set (df_rows df)" "check_out_date r = check_in_date r"
  proof -
    from that have "r \<in> set (filter (\<lambda>r. check_out_date r \<le> check_in_date r) (df_rows df))"
      by simp
    then have "filter (\<lambda>r. check_out_date r \<le> check_in_date r) (df_rows df) \<noteq> []"
      by (metis empty_iff empty_set)
    then show ?thesis by (simp add: Suc_le_eq)
  qed
  show ?thesis
    using pos by (auto simp: validate_bookings_def Let_def split: option.splits)
qed

text \<open>The theorem on a frame holding a booking with both dates 2024-01-10.\<close>

theorem validate_bookings_check_order_witness:
  "same_day_booking \<in> set (df_rows same_day_df)
   \<and> check_out_date same_day_booking = check_in_date same_day_booking
   \<and> failure_cases (booking_schema example_config) (df_rows same_day_df) = []
   \<and> fst (validate_bookings example_config same_day_df)
       = (False, Some (CheckOutNotAfterCheckIn 1))"
  using validate_bookings_check_order[of example_config same_day_df same_day_booking]
  by (simp add: same_day_df_def same_day_rows_ok)
     (simp add: same_day_booking_def typical_booking_def)

subsection \<open>C9: the booking channels\<close>

text \<open>
  C9, as the code has it. Every booking of \<open>generate_bookings_for_customer\<close> has its
  channel among the four values \<open>Direct Website\<close>, \<open>Agent\<close>, \<open>OTA (Booking.com)\<close> and
  \<open>Walk-in\<close>; the schema of \<open>validate_bookings\<close> reports a failure of the
  \<open>booking_channel\<close> column at a row exactly when the channel of that row is not one of
  these four, and a frame that \<open>validate_bookings\<close> accepts has all its channels
  among them.
\<close>

theorem channel_enumeration:
  "(generate_bookings_for_customer cfg c s e rs = Inr bs \<longrightarrow>
      (\<forall>b\<in>set bs. booking_channel b \<in>
          {''Direct Website'', ''Agent'', ''OTA (Booking.com)'', ''Walk-in''}))
   \<and> (((''booking_channel'', i) \<in> set (failure_cases (booking_schema cfg) rows)) =
        (i < length rows \<and> booking_channel (rows ! i) \<notin>
          {''Direct Website'', ''Agent'', ''OTA (Booking.com)'', ''Walk-in''}))
   \<and> (fst (fst (validate_bookings cfg df)) \<longrightarrow>
        (\<forall>r\<in>set (df_rows df). booking_channel r \<in>
          {''Direct Website'', ''Agent'', ''OTA (Booking.com)'', ''Walk-in''}))"
proof (intro conjI impI ballI)
  fix b
  assume gen: "generate_bookings_for_customer cfg c s e rs = Inr bs" and b: "b \<in> set bs"
  from b obtain j where j: "j < length bs" "b = bs ! j"
    by (auto simp: in_set_conv_nth)
  with generate_bookings_Inr[OF gen] obtain seg where
    "generate_booking cfg seg (customer_id c) s e (loop_draws rs j) = Inr b"
    by auto
  from generate_booking_Inr(4)[OF this]
  show "booking_channel b \<in> {''Direct Website'', ''Agent'', ''OTA (Booking.com)'', ''Walk-in''}"
    by (simp add: channels_def)
next
  show "((''booking_channel'', i) \<in> set (failure_cases (booking_schema cfg) rows)) =
        (i < length rows \<and> booking_channel (rows ! i) \<notin>
          {''Direct Website'', ''Agent'', ''OTA (Booking.com)'', ''Walk-in''})"
    by (simp add: failure_cases_mem booking_schema_channel)
next
  fix r
  assume ok: "fst (fst (validate_bookings cfg df))" and r: "r \<in> set (df_rows df)"
  from ok have "failure_cases (booking_schema cfg) (df_rows df) = []"
    by (auto simp: validate_bookings_def Let_def split: if_splits)
  then have "\<forall>(col, chk)\<in>set (booking_schema cfg). \<forall>r\<in>set (df_rows df). chk r"
    by (simp only: failure_cases_Nil)
  moreover have "(''booking_channel'', \<lambda>r. booking_channel r \<in>
          set [''Direct Website'', ''Agent'', ''OTA (Booking.com)'', ''Walk-in''])
        \<in> set (booking_schema cfg)"
    by (simp add: booking_schema_channel)
  ultimately have "case (''booking_channel'', \<lambda>r. booking_channel r \<in>
          set [''Direct Website'', ''Agent'', ''OTA (Booking.com)'', ''Walk-in''])
        of (col, chk) \<Rightarrow> \<forall>r\<in>set (df_rows df). chk r"
    by (rule bspec)
  then have "\<forall>r\<in>set (df_rows df). booking_channel r \<in>
          set [''Direct Website'', ''Agent'', ''OTA (Booking.com)'', ''Walk-in'']"
    by (simp only: prod.case)
  then have "booking_channel r \<in>
          set [''Direct Website'', ''Agent'', ''OTA (Booking.com)'', ''Walk-in'']"
    using r by (rule bspec)
  then show "booking_channel r \<in>
          {''Direct Website'', ''Agent'', ''OTA (Booking.com)'', ''Walk-in''}"
    by simp
qed

text \<open>The theorem on the example call and the valid frame.\<close>

theorem channel_enumeration_witness:
  "generate_bookings_for_customer example_config example_customer 0 7 typical_call
     = Inr [typical_booking]
   \<and> booking_channel typical_booking \<in>
        {''Direct Website'', ''Agent'', ''OTA (Booking.com)'', ''Walk-in''}
   \<and> fst (fst (validate_bookings example_config valid_df))
   \<and> (''booking_channel'', 0) \<notin>
        set (failure_cases (booking_schema example_config) [typical_booking])"
proof -
  note t = channel_enumeration[of example_config example_customer 0 7 typical_call
      "[typical_booking]" 0 "[typical_booking]" valid_df]
  from t have "\<forall>b\<in>set [typical_booking]. booking_channel b \<in>
          {''Direct Website'', ''Agent'', ''OTA (Booking.com)'', ''Walk-in''}"
    using typical_generated by blast
  then have a: "booking_channel typical_booking \<in>
        {''Direct Website'', ''Agent'', ''OTA (Booking.com)'', ''Walk-in''}"
    by simp
  have b: "fst (fst (validate_bookings example_config valid_df))"
    by (simp add: valid_df_validated)
  have c: "(''booking_channel'', 0) \<notin>
        set (failure_cases (booking_schema example_config) [typical_booking])"
    by (simp add: typical_row_ok)
  from typical_generated a b c show ?thesis by blast
qed

text \<open>
  The third value is \<open>OTA (Booking.com)\<close>: the generator produces it, and the validator
  rejects the channel \<open>OTA\<close>.
\<close>

theorem channel_literal_differs:
  "generate_bookings_for_customer example_config example_customer 0 7 long_stay_call
     = Inr [long_stay_booking]
   \<and> booking_channel long_stay_booking = ''OTA (Booking.com)''
   \<and> booking_channel long_stay_booking \<notin> {''Direct Website'', ''Agent'', ''OTA'', ''Walk-in''}
   \<and> booking_channel ota_booking = ''OTA''
   \<and> fst (validate_bookings example_config
        \<lparr> df_rows = [ota_booking], df_booking_id = None, df_nights = None \<rparr>)
      = (False, Some (SchemaValidationFailed [(''booking_channel'', 0)]))"
proof -
  have "failure_cases (booking_schema example_config) [ota_booking] = [(''booking_channel'', 0)]"
    by (simp add: failure_cases_def booking_schema_def ota_booking_def typical_booking_def
        example_config_def)
  then have "fst (validate_bookings example_config
        \<lparr> df_rows = [ota_booking], df_booking_id = None, df_nights = None \<rparr>)
      = (False, Some (SchemaValidationFailed [(''booking_channel'', 0)]))"
    by (simp add: validate_bookings_def)
  moreover have "booking_channel long_stay_booking = ''OTA (Booking.com)''"
    "booking_channel ota_booking = ''OTA''"
    by (simp_all add: long_stay_booking_def ota_booking_def)
  ultimately show ?thesis using long_stay_generated by simp
qed

subsection \<open>C6: a failed cleanup does not stop the weekly pipeline\<close>

text \<open>
  C6. In \<open>run_weekly_pipeline\<close>, once the connection test has passed, a cleanup that raises
  does not abort the run: the weekly generation and persistence still run, on the tables
  as the cleanup left them. The pipeline returns \<open>True\<close> when generation and persistence
  succeed and the verification counts succeed, which they do when no storage call of
  those stages fails, every segment is configured and there is a customer to pick; it
  returns \<open>False\<close> when generation or persistence raises.
\<close>

theorem cleanup_failure_tolerated:
  assumes conn: "test_connection flt"
    and failed: "fst (cleanup_old_data flt now_cleanup d) = Inl err"
  shows "snd (run_weekly_pipeline cfg flt now_cleanup now_generate rs d) =
           snd (generate_weekly_data cfg flt now_generate rs
                  (snd (cleanup_old_data flt now_cleanup d)))
     \<and> (fst (generate_weekly_data cfg flt now_generate rs
                  (snd (cleanup_old_data flt now_cleanup d))) = Inr ()
          \<and> \<not> flt CountVerify \<longrightarrow>
          fst (run_weekly_pipeline cfg flt now_cleanup now_generate rs d) = Inr True)
     \<and> (\<forall>err'. fst (generate_weekly_data cfg flt now_generate rs
                  (snd (cleanup_old_data flt now_cleanup d))) = Inl err' \<longrightarrow>
          fst (run_weekly_pipeline cfg flt now_cleanup now_generate rs d) = Inr False)
     \<and> (\<not> flt CommitCustomers \<and> \<not> flt QueryCustomers \<and> \<not> flt CommitBookings
          \<and> \<not> flt CountVerify
          \<and> (\<forall>cat\<in>set job_categories. customer_segments cfg cat \<noteq> None)
          \<and> (\<forall>c\<in>set (customers (snd (cleanup_old_data flt now_cleanup d))).
                customer_segments cfg (job_category c) \<noteq> None)
          \<and> (customers (snd (cleanup_old_data flt now_cleanup d)) \<noteq> []
               \<or> 0 < new_customers_per_week cfg) \<longrightarrow>
          fst (run_weekly_pipeline cfg flt now_cleanup now_generate rs d) = Inr True)"
proof -
  let ?d1 = "snd (cleanup_old_data flt now_cleanup d)"
  let ?g = "generate_weekly_data cfg flt now_generate rs ?d1"
  have run: "run_weekly_pipeline cfg flt now_cleanup now_generate rs d =
      (case ?g of
         (Inl e, d2) \<Rightarrow> (Inr False, d2)
       | (Inr u, d2) \<Rightarrow> if flt CountVerify then (Inl OperationalError, d2) else (Inr True, d2))"
    using conn by (simp add: run_weekly_pipeline_def Let_def)
  have a: "snd (run_weekly_pipeline cfg flt now_cleanup now_generate rs d) = snd ?g"
    unfolding run by (cases ?g) (auto split: sum.splits)
  have b: "fst (run_weekly_pipeline cfg flt now_cleanup now_generate rs d) = Inr True"
    if "fst ?g = Inr ()" "\<not> flt CountVerify"
    unfolding run using that by (cases ?g) (auto split: sum.splits)
  have c: "fst (run_weekly_pipeline cfg flt now_cleanup now_generate rs d) = Inr False"
    if "fst ?g = Inl err'" for err'
    unfolding run using that by (cases ?g) (auto split: sum.splits)
  have d: "fst (run_weekly_pipeline cfg flt now_cleanup now_generate rs d) = Inr True"
    if "\<not> flt CommitCustomers" "\<not> flt QueryCustomers" "\<not> flt CommitBookings"
      "\<not> flt CountVerify"
      "\<forall>cat\<in>set job_categories. customer_segments cfg cat \<noteq> None"
      "\<forall>c\<in>set (customers ?d1). customer_segments cfg (job_category c) \<noteq> None"
      "customers ?d1 \<noteq> [] \<or> 0 < new_customers_per_week cfg"
  proof -
    from generate_weekly_data_succeeds[OF that(1,2,3,5,6,7)]
    obtain d' where "?g = (Inr (), d')" by blast
    then have "fst ?g = Inr ()" by simp
    then show ?thesis using that(4) by (rule b)
  qed
  from a b c d show ?thesis by blast
qed

text \<open>
  The theorem on a table where the cleanup raises \<open>IntegrityError\<close> (a recent support log
  refers to a customer whose only booking is old): the run returns \<open>True\<close>, and \<open>False\<close>
  when the commit of the new customers fails.
\<close>

theorem cleanup_failure_tolerated_witness:
  "test_connection no_faults
   \<and> cleanup_old_data no_faults example_now orphan_log_db = (Inl IntegrityError, orphan_log_db)
   \<and> fst (run_weekly_pipeline example_config no_faults example_now example_now
            example_weekly_draws orphan_log_db) = Inr True
   \<and> test_connection commit_customers_fails
   \<and> fst (run_weekly_pipeline example_config commit_customers_fails example_now example_now
            example_weekly_draws orphan_log_db) = Inr False"
proof -
  have conn: "test_connection no_faults" "test_connection commit_customers_fails"
    by (simp_all add: test_connection_def no_faults_def commit_customers_fails_def)
  have f1: "fst (cleanup_old_data no_faults example_now orphan_log_db) = Inl IntegrityError"
    and s1: "snd (cleanup_old_data no_faults example_now orphan_log_db) = orphan_log_db"
    by (simp_all add: orphan_log_cleanup)
  have f2: "fst (cleanup_old_data commit_customers_fails example_now orphan_log_db)
      = Inl IntegrityError"
    and s2: "snd (cleanup_old_data commit_customers_fails example_now orphan_log_db)
      = orphan_log_db"
    by (simp_all add: orphan_log_cleanup_fault)
  have ne: "customers orphan_log_db \<noteq> []" by (simp add: orphan_log_db_def)
  note t1 = cleanup_failure_tolerated[OF conn(1) f1, of example_config example_now
      example_weekly_draws, unfolded s1]
  have r1: "fst (run_weekly_pipeline example_config no_faults example_now example_now
            example_weekly_draws orphan_log_db) = Inr True"
    using t1 example_config_segments orphan_log_db_segments ne
    by (simp add: no_faults_def)
  note t2 = cleanup_failure_tolerated[OF conn(2) f2, of example_config example_now
      example_weekly_draws, unfolded s2]
  have "fst (generate_weekly_data example_config commit_customers_fails example_now
            example_weekly_draws orphan_log_db) = Inl OperationalError"
    by (simp add: generate_weekly_data_commit_fault commit_customers_fails_def)
  with t2 have r2: "fst (run_weekly_pipeline example_config commit_customers_fails example_now
            example_now example_weekly_draws orphan_log_db) = Inr False"
    by blast
  from conn orphan_log_cleanup r1 r2 show ?thesis by blast
qed

subsection \<open>C10: at least one booking per call, one booking per weekly slot\<close>




end
